theory Spec2Isabelle
  imports Main "HOL-Library.Multiset"
begin

section \<open>Python values\<close>

text \<open>
  A Python \<^verbatim>\<open>str\<close> is a \<^typ>\<open>string\<close>; one \<^typ>\<open>char\<close> stands for one code point, so
  \<^const>\<open>length\<close> is Python's \<^verbatim>\<open>len\<close> and \<^const>\<open>take\<close> is the slice \<^verbatim>\<open>s[:n]\<close>
  (the model covers the code points below 256). A Python object is falsy when it is
  \<^verbatim>\<open>None\<close>, \<^verbatim>\<open>0\<close>, the empty string or the empty list.
\<close>

definition isspace :: "char \<Rightarrow> bool" where
  \<comment> \<open>the code points below 256 that \<^verbatim>\<open>str.strip()\<close> removes\<close>
  "isspace c = (of_char c \<in> {9::nat, 10, 11, 12, 13, 28, 29, 30, 31, 32, 133, 160})"

definition strip :: "string \<Rightarrow> string" where
  "strip s = rev (dropWhile isspace (rev (dropWhile isspace s)))"

fun join :: "string \<Rightarrow> string list \<Rightarrow> string" where
  "join sep [] = []"
| "join sep [x] = x"
| "join sep (x # y # ys) = x @ sep @ join sep (y # ys)"

definition or_empty :: "string option \<Rightarrow> string" where
  \<comment> \<open>\<^verbatim>\<open>x or ""\<close> for an \<^verbatim>\<open>x\<close> that is \<^verbatim>\<open>None\<close> or a string\<close>
  "or_empty x = (case x of None \<Rightarrow> [] | Some s \<Rightarrow> s)"

function digits :: "nat \<Rightarrow> string" where
  "digits n = (if n < 10 then [''0123456789'' ! n]
               else digits (n div 10) @ [''0123456789'' ! (n mod 10)])"
  by pat_completeness auto
termination
  by (relation "measure id") auto

definition str_int :: "int \<Rightarrow> string" where
  \<comment> \<open>\<^verbatim>\<open>str(i)\<close>, as an f-string renders an integer\<close>
  "str_int i = (if i < 0 then CHR ''-'' # digits (nat (- i)) else digits (nat i))"

text \<open>
  Exceptions are values. \<^verbatim>\<open>HTTPException\<close> is FastAPI's, with its status code and
  detail; the detail \<^verbatim>\<open>{"error": str(e), "trace": tb}\<close> that \<^verbatim>\<open>chat\<close> builds from a
  caught exception \<^verbatim>\<open>e\<close> is \<open>ErrorTrace e\<close>. \<open>ExternalError\<close> is whatever a collaborator
  (pypdf, pickle, faiss, ollama) raises.
\<close>

datatype py_exn =
    HTTPException int detail
  | RuntimeError string
  | IndexError
  | ExternalError string
and detail =
    Text string
  | ErrorTrace py_exn

definition py_getitem :: "'a list \<Rightarrow> int \<Rightarrow> py_exn + 'a" where
  \<comment> \<open>\<^verbatim>\<open>xs[i]\<close> for a list: \<^verbatim>\<open>-1\<close> is the last element, \<^verbatim>\<open>-len(xs)\<close> the first, and an index
      outside \<^verbatim>\<open>-len(xs) .. len(xs) - 1\<close> raises\<close>
  "py_getitem xs i =
     (if 0 \<le> i \<and> i < int (length xs) then Inr (xs ! nat i)
      else if i < 0 \<and> - int (length xs) \<le> i then Inr (xs ! nat (int (length xs) + i))
      else Inl IndexError)"

section \<open>loader.py\<close>

text \<open>
  The collaborators the backend calls, as parameters: the sentence-transformers encoder,
  the search of the FAISS index (the row \<^verbatim>\<open>I[0]\<close> of labels it returns for one query vector
  and \<^verbatim>\<open>top_k\<close>; the distances \<^verbatim>\<open>D\<close> are bound by the source and never read), the Ollama
  model in its blocking and its streaming form, and the database's
  \<^verbatim>\<open>ORDER BY timestamp DESC\<close>.
\<close>

datatype 'v faiss_index = IndexFlatL2 "'v list"


datatype stream_item = Chunk "string option" | Failure string

record chat_message =
  mid :: int
  session_id :: int
  role :: string
  content :: string
  timestamp :: nat

record 'v env =
  encode :: "string \<Rightarrow> 'v"
  index_search :: "'v faiss_index \<Rightarrow> 'v \<Rightarrow> int \<Rightarrow> py_exn + int list"
  ollama_generate :: "string \<Rightarrow> py_exn + string option"
  ollama_generate_stream :: "string \<Rightarrow> stream_item list"
  order_by_timestamp_desc :: "chat_message list \<Rightarrow> chat_message list"

text \<open>
  The files the loader reads and writes: \<^verbatim>\<open>faiss_index.faiss\<close>, \<^verbatim>\<open>texts.pkl\<close>, and the
  PDF at a path, given by what \<^verbatim>\<open>extract_text()\<close> returns for each of its pages.
\<close>

datatype 'a path_content = Absent | Unreadable | Stored 'a


definition exists :: "'a path_content \<Rightarrow> bool" where
  "exists f = (f \<noteq> Absent)"






fun collect :: "string list \<Rightarrow> int list \<Rightarrow> string list \<Rightarrow> py_exn + string list" where
  "collect pages [] results = Inr results"
| "collect pages (idx # rest) results =
     (if idx < int (length pages) then
        (case py_getitem pages idx of
           Inl err \<Rightarrow> Inl err
         | Inr p \<Rightarrow> collect pages rest (results @ [p]))
      else collect pages rest results)"

definition similarity_search ::
  "'v env \<Rightarrow> 'v faiss_index \<Rightarrow> string list \<Rightarrow> string \<Rightarrow> int \<Rightarrow> py_exn + string list" where
  "similarity_search e index pages query top_k =
     (let q_emb = encode e query
      in case index_search e index q_emb top_k of
           Inl err \<Rightarrow> Inl err
         | Inr labels \<Rightarrow> collect pages labels [])"

section \<open>chat_persistence.py\<close>

text \<open>
  The tables of the database, as lists of rows in insertion order, and the log of the calls
  made to the index and to the model. The columns \<^verbatim>\<open>created_at\<close> and \<^verbatim>\<open>updated_at\<close> of a
  session are not read by the code below and are left out. A primary key is assigned
  by the database: the next integer above those in the table, so never \<^verbatim>\<open>0\<close>. The
  \<^verbatim>\<open>timestamp\<close> of a message is the clock's reading when the row is inserted; the
  functions that insert a message take it as an argument.
\<close>

record chat_session =
  sid :: int
  user_id :: int
  title :: string

record user =
  uid :: int
  email :: string

datatype call = Search string int | Generate string | GenerateStream string

record world =
  sessions :: "chat_session list"
  messages :: "chat_message list"
  calls :: "call list"

definition fresh_id :: "int list \<Rightarrow> int" where
  "fresh_id ids = fold max ids 0 + 1"

definition create_session :: "world \<Rightarrow> user \<Rightarrow> string \<Rightarrow> chat_session \<times> world" where
  "create_session w usr ttl =
     (let session = \<lparr>sid = fresh_id (map sid (sessions w)), user_id = uid usr, title = ttl\<rparr>
      in (session, w\<lparr>sessions := sessions w @ [session]\<rparr>))"

definition save_message :: "world \<Rightarrow> nat \<Rightarrow> int \<Rightarrow> string \<Rightarrow> string \<Rightarrow> chat_message \<times> world" where
  "save_message w now sess_id rl cont =
     (let message = \<lparr>mid = fresh_id (map mid (messages w)), session_id = sess_id,
                      role = rl, content = cont, timestamp = now\<rparr>
      in (message, w\<lparr>messages := messages w @ [message]\<rparr>))"

definition format_message :: "chat_message \<Rightarrow> string" where
  "format_message msg = (if role msg = ''user'' then ''User'' else ''Assistant'') @ '': '' @ content msg"

definition format_messages_for_llm :: "chat_message list \<Rightarrow> string" where
  "format_messages_for_llm msgs = join ''\<newline>\<newline>'' (map format_message msgs)"

definition recent_messages :: "'v env \<Rightarrow> world \<Rightarrow> int \<Rightarrow> nat \<Rightarrow> chat_message list" where
  \<comment> \<open>the query of \<^verbatim>\<open>get_recent_context\<close>, then \<^verbatim>\<open>messages.reverse()\<close>\<close>
  "recent_messages e w sess_id limit =
     rev (take limit (order_by_timestamp_desc e (filter (\<lambda>m. session_id m = sess_id) (messages w))))"

definition get_recent_context :: "'v env \<Rightarrow> world \<Rightarrow> int \<Rightarrow> nat \<Rightarrow> string" where
  "get_recent_context e w sess_id limit = format_messages_for_llm (recent_messages e w sess_id limit)"

section \<open>app.py\<close>

record chat_request =
  user :: string
  top_k :: int
  session_id_req :: "int option"

record chat_response =
  reply :: string
  sources_used :: "string list option"
  session_id_out :: "int option"

definition fallback_sentence :: string where
  "fallback_sentence = ''Sorry, I don't have that information.''"

definition format_context :: "string list \<Rightarrow> string" where
  "format_context results = join ''\<newline>\<newline>---\<newline>\<newline>'' results"

definition session_title :: "string \<Rightarrow> string" where
  \<comment> \<open>\<^verbatim>\<open>user_msg[:50] + "..." if len(user_msg) > 50 else user_msg\<close>\<close>
  "session_title user_msg = (if length user_msg > 50 then take 50 user_msg @ ''...'' else user_msg)"

definition owned_session :: "world \<Rightarrow> int \<Rightarrow> user \<Rightarrow> chat_session option" where
  \<comment> \<open>\<^verbatim>\<open>db.query(ChatSession).filter(id == session_id, user_id == current_user.id).first()\<close>\<close>
  "owned_session w sess_id current_user =
     find (\<lambda>s. sid s = sess_id \<and> user_id s = uid current_user) (sessions w)"

definition get_or_create_session :: "world \<Rightarrow> user \<Rightarrow> int option \<Rightarrow> string \<Rightarrow> py_exn + int \<times> world" where
  \<comment> \<open>the branch on \<^verbatim>\<open>if not session_id\<close>, the same in both handlers; \<^verbatim>\<open>None\<close> and \<^verbatim>\<open>0\<close>
      are the falsy session ids\<close>
  "get_or_create_session w current_user sess_id user_msg =
     (let created = (let (session, w') = create_session w current_user (session_title user_msg)
                     in Inr (sid session, w'))
      in case sess_id of
           None \<Rightarrow> created
         | Some i \<Rightarrow>
             if i = 0 then created
             else (case owned_session w i current_user of
                     None \<Rightarrow> Inl (HTTPException 404 (Text ''Session not found''))
                   | Some session \<Rightarrow> Inr (i, w)))"

definition build_prompt :: "string \<Rightarrow> string \<Rightarrow> string \<Rightarrow> string" where
  \<open>build_prompt recent_context context_text user_msg =
     (let parts0 =
            [''You are an assistant that answers customer questions strictly using the provided company/document context and recent conversation history.'',
             ''If the answer cannot be found in the context, reply exactly: "Sorry, I don't have that information."'',
             ''Be concise and helpful.\<newline>''];
          parts1 = (if recent_context \<noteq> []
                    then parts0 @ [''RECENT CONVERSATION:\<newline>'' @ recent_context @ ''\<newline>'']
                    else parts0);
          parts2 = (if context_text \<noteq> []
                    then parts1 @ [''DOCUMENT CONTEXT:\<newline>'' @ context_text @ ''\<newline>'']
                    else parts1);
          parts3 = parts2 @ [''Question: '' @ user_msg @ ''\<newline>'', ''Answer:'']
      in join ''\<newline>'' parts3)\<close>

definition log_call :: "call \<Rightarrow> world \<Rightarrow> world" where
  "log_call c w = w\<lparr>calls := calls w @ [c]\<rparr>"

definition chat_try ::
  "'v env \<Rightarrow> 'v faiss_index \<Rightarrow> string list \<Rightarrow> world \<Rightarrow> user \<Rightarrow> chat_request \<Rightarrow> nat \<Rightarrow> nat
    \<Rightarrow> (py_exn + chat_response) \<times> world" where
  \<comment> \<open>the body of the \<^verbatim>\<open>try\<close> of \<^verbatim>\<open>chat\<close>; the two saves happen at \<open>t_user\<close> and \<open>t_assistant\<close>\<close>
  "chat_try e index pages w current_user req t_user t_assistant =
     (let user_msg = strip (user req) in
      if user_msg = [] then
        (Inr \<lparr>reply = ''Please send a non-empty question.'', sources_used = None,
               session_id_out = None\<rparr>, w)
      else
        case get_or_create_session w current_user (session_id_req req) user_msg of
          Inl err \<Rightarrow> (Inl err, w)
        | Inr (sess_id, w1) \<Rightarrow>
            let (_, w2) = save_message w1 t_user sess_id ''user'' user_msg;
                recent_context = get_recent_context e w2 sess_id 5;
                w3 = log_call (Search user_msg (top_k req)) w2
            in (case similarity_search e index pages user_msg (top_k req) of
                  Inl err \<Rightarrow> (Inl err, w3)
                | Inr results \<Rightarrow>
                    let context_text = (if results \<noteq> [] then format_context results else []);
                        prompt = build_prompt recent_context context_text user_msg;
                        w4 = log_call (Generate prompt) w3
                    in (case ollama_generate e prompt of
                          Inl err \<Rightarrow> (Inl err, w4)
                        | Inr response \<Rightarrow>
                            let answer = strip (or_empty response);
                                (_, w5) = save_message w4 t_assistant sess_id ''assistant'' answer
                            in if strip context_text = [] then
                                 (Inr \<lparr>reply = fallback_sentence, sources_used = Some [],
                                        session_id_out = Some sess_id\<rparr>, w5)
                               else
                                 (Inr \<lparr>reply = answer, sources_used = Some results,
                                        session_id_out = Some sess_id\<rparr>, w5))))"

definition chat ::
  "'v env \<Rightarrow> 'v faiss_index \<Rightarrow> string list \<Rightarrow> world \<Rightarrow> user \<Rightarrow> chat_request \<Rightarrow> nat \<Rightarrow> nat
    \<Rightarrow> (py_exn + chat_response) \<times> world" where
  \<comment> \<open>\<^verbatim>\<open>except Exception as e: raise HTTPException(status_code=500, detail=...)\<close>\<close>
  "chat e index pages w current_user req t_user t_assistant =
     (case chat_try e index pages w current_user req t_user t_assistant of
        (Inl err, w') \<Rightarrow> (Inl (HTTPException 500 (ErrorTrace err)), w')
      | (Inr response, w') \<Rightarrow> (Inr response, w'))"

fun stream_chunks :: "stream_item list \<Rightarrow> string list \<Rightarrow> string list \<times> (string + string list)" where
  \<comment> \<open>the \<^verbatim>\<open>for chunk in ollama.generate(..., stream=True)\<close> loop: the events it yields, and
      how it ends (the exception's text, or the pieces accumulated)\<close>
  "stream_chunks [] accumulated = ([], Inr accumulated)"
| "stream_chunks (Failure err # rest) accumulated = ([], Inl err)"
| "stream_chunks (Chunk r # rest) accumulated =
     (let piece = or_empty r in
      if piece \<noteq> [] then
        (let (events, outcome) = stream_chunks rest (accumulated @ [piece])
         in ((''data: '' @ piece @ ''\<newline>\<newline>'') # events, outcome))
      else stream_chunks rest accumulated)"

definition event_generator :: "'v env \<Rightarrow> world \<Rightarrow> int \<Rightarrow> string \<Rightarrow> nat \<Rightarrow> string list \<times> world" where
  \<comment> \<open>all the events of the stream, for a client that reads it to its end\<close>
  "event_generator e w sess_id prompt t_assistant =
     (let w1 = log_call (GenerateStream prompt) w;
          (events, outcome) = stream_chunks (ollama_generate_stream e prompt) []
      in case outcome of
           Inr accumulated \<Rightarrow>
             (let final_text = strip (concat accumulated);
                  (_, w2) = save_message w1 t_assistant sess_id ''assistant'' final_text
              in (events @ [''event: done\<newline>data: '' @ str_int sess_id @ ''\<newline>\<newline>''], w2))
         | Inl err \<Rightarrow> (events @ [''event: error\<newline>data: '' @ err @ ''\<newline>\<newline>''], w1))"

definition chat_stream ::
  "'v env \<Rightarrow> 'v faiss_index \<Rightarrow> string list \<Rightarrow> world \<Rightarrow> user \<Rightarrow> chat_request \<Rightarrow> nat \<Rightarrow> nat
    \<Rightarrow> (py_exn + string list) \<times> world" where
  "chat_stream e index pages w current_user req t_user t_assistant =
     (let user_msg = strip (user req) in
      if user_msg = [] then (Inl (HTTPException 400 (Text ''Empty message'')), w)
      else
        case get_or_create_session w current_user (session_id_req req) user_msg of
          Inl err \<Rightarrow> (Inl err, w)
        | Inr (sess_id, w1) \<Rightarrow>
            let (_, w2) = save_message w1 t_user sess_id ''user'' user_msg;
                w3 = log_call (Search user_msg (top_k req)) w2
            in (case similarity_search e index pages user_msg (top_k req) of
                  Inl err \<Rightarrow> (Inl err, w3)
                | Inr results \<Rightarrow>
                    let context_text = (if results \<noteq> [] then format_context results else []);
                        recent_context = get_recent_context e w3 sess_id 5;
                        prompt = build_prompt recent_context context_text user_msg;
                        (events, w4) = event_generator e w3 sess_id prompt t_assistant
                    in (Inr events, w4)))"

section \<open>Concrete inputs\<close>

text \<open>
  An environment whose collaborators answer with fixed values: the encoder maps a text to
  its length, the index search returns the given row of labels, the model returns the
  given response (or the given stream), and the database orders by a stable sort.
\<close>

definition fixed_env :: "int list \<Rightarrow> string option \<Rightarrow> stream_item list \<Rightarrow> nat env" where
  "fixed_env labels out items =
     \<lparr>encode = length, index_search = (\<lambda>_ _ _. Inr labels), ollama_generate = (\<lambda>_. Inr out),
      ollama_generate_stream = (\<lambda>_. items),
      order_by_timestamp_desc = (\<lambda>ms. rev (sort_key timestamp ms))\<rparr>"

definition alice :: user where
  "alice = \<lparr>uid = 1, email = ''alice@example.com''\<rparr>"

definition empty_world :: world where
  "empty_world = \<lparr>sessions = [], messages = [], calls = []\<rparr>"

definition bobs_world :: world where
  "bobs_world = \<lparr>sessions = [\<lparr>sid = 1, user_id = 2, title = ''Refunds''\<rparr>], messages = [], calls = []\<rparr>"


definition capital_request :: chat_request where
  "capital_request = \<lparr>user = ''Capital of France?'', top_k = 1, session_id_req = None\<rparr>"

section \<open>The layout of the prompt\<close>

text \<open>
  The prompt as the specification describes it, written out as one concatenation: the
  system instruction, the block of recent messages (absent when there are none), the block
  of retrieved passages (absent when there are none), the question, and the cue. The
  handlers build it with \<open>build_prompt\<close>; \<open>build_prompt_layout\<close> below compares the two.
\<close>

definition system_instruction :: string where
  \<open>system_instruction =
     ''You are an assistant that answers customer questions strictly using the provided company/document context and recent conversation history.''
     @ ''\<newline>'' @ ''If the answer cannot be found in the context, reply exactly: "'' @ fallback_sentence @ ''"''
     @ ''\<newline>'' @ ''Be concise and helpful.'' @ ''\<newline>\<newline>''\<close>

definition recent_conversation_block :: "chat_message list \<Rightarrow> string" where
  "recent_conversation_block msgs =
     (if msgs = [] then []
      else ''RECENT CONVERSATION:\<newline>'' @ join ''\<newline>\<newline>'' (map format_message msgs) @ ''\<newline>\<newline>'')"

definition document_context_block :: "string list \<Rightarrow> string" where
  "document_context_block results =
     (if results = [] then []
      else ''DOCUMENT CONTEXT:\<newline>'' @ join ''\<newline>\<newline>---\<newline>\<newline>'' results @ ''\<newline>\<newline>'')"

definition prompt_layout :: "chat_message list \<Rightarrow> string list \<Rightarrow> string \<Rightarrow> string" where
  "prompt_layout msgs results q =
     system_instruction @ recent_conversation_block msgs @ document_context_block results
     @ ''Question: '' @ q @ ''\<newline>\<newline>'' @ ''Answer:''"

section \<open>The database's ordering\<close>

text \<open>
  What \<^verbatim>\<open>ORDER BY timestamp DESC\<close> promises of the function that orders the rows: the same
  rows, latest first. The order among rows of one timestamp is the engine's to choose.
\<close>

definition sql_order_by_desc :: "(chat_message list \<Rightarrow> chat_message list) \<Rightarrow> bool" where
  "sql_order_by_desc f =
     (\<forall>ms. mset (f ms) = mset ms \<and> sorted_wrt (\<lambda>a b. timestamp b \<le> timestamp a) (f ms))"

definition alices_world :: world where
  "alices_world =
     \<lparr>sessions = [\<lparr>sid = 1, user_id = 1, title = ''Hello''\<rparr>],
      messages = [\<lparr>mid = 1, session_id = 1, role = ''user'', content = ''Hello'', timestamp = 1\<rparr>,
                  \<lparr>mid = 2, session_id = 1, role = ''assistant'', content = ''Hi!'', timestamp = 2\<rparr>],
      calls = []\<rparr>"

definition followup_request :: chat_request where
  "followup_request = \<lparr>user = ''Capital of France?'', top_k = 1, session_id_req = Some 1\<rparr>"

text \<open>
  A second ordering that keeps the same promise: a stable sort on the timestamps, latest
  first, which leaves rows of one timestamp in the order they were inserted. And a session
  whose last message carries the timestamp \<open>10\<close>.
\<close>

definition tie_env :: "nat env" where
  "tie_env = (fixed_env [2] (Some ''Paris.'') [])
     \<lparr>order_by_timestamp_desc := (\<lambda>ms. sort_key (\<lambda>m. - int (timestamp m)) ms)\<rparr>"

definition tied_world :: world where
  "tied_world =
     \<lparr>sessions = [\<lparr>sid = 1, user_id = 1, title = ''Hello''\<rparr>],
      messages = [\<lparr>mid = 1, session_id = 1, role = ''user'', content = ''Hello'', timestamp = 1\<rparr>,
                  \<lparr>mid = 2, session_id = 1, role = ''assistant'', content = ''Hi!'', timestamp = 10\<rparr>],
      calls = []\<rparr>"

section \<open>Strings\<close>

lemma strip_empty_iff: "strip s = [] \<longleftrightarrow> (\<forall>c\<in>set s. isspace c)"
proof -
  have "strip s = [] \<longleftrightarrow> (\<forall>c\<in>set (dropWhile isspace s). isspace c)"
    by (simp add: strip_def dropWhile_eq_Nil_conv)
  also have "\<dots> \<longleftrightarrow> (\<forall>c\<in>set s. isspace c)"
  proof
    assume all: "\<forall>c\<in>set (dropWhile isspace s). isspace c"
    have "dropWhile isspace s = []"
    proof (rule ccontr)
      assume ne: "dropWhile isspace s \<noteq> []"
      then have "\<not> isspace (hd (dropWhile isspace s))" by (rule hd_dropWhile)
      moreover have "hd (dropWhile isspace s) \<in> set (dropWhile isspace s)" using ne by simp
      ultimately show False using all by blast
    qed
    then show "\<forall>c\<in>set s. isspace c" by (simp add: dropWhile_eq_Nil_conv)
  next
    assume "\<forall>c\<in>set s. isspace c"
    then show "\<forall>c\<in>set (dropWhile isspace s). isspace c"
      by (meson set_dropWhileD)
  qed
  finally show ?thesis .
qed

lemma join_nonempty: "x \<noteq> [] \<Longrightarrow> join sep (x # xs) \<noteq> []"
  by (cases xs) simp_all

lemma join_eq_Nil_iff: "[] \<notin> set xs \<Longrightarrow> join sep xs = [] \<longleftrightarrow> xs = []"
  by (cases xs) (auto simp: join_nonempty)

section \<open>The database and the handlers, step by step\<close>

lemma messages_create_session [simp]: "messages (snd (create_session w u t)) = messages w"
  and calls_create_session [simp]: "calls (snd (create_session w u t)) = calls w"
  and sessions_create_session: "sessions (snd (create_session w u t)) = sessions w @ [fst (create_session w u t)]"
  by (simp_all add: create_session_def Let_def)

lemma get_or_create_session_keeps:
  assumes "get_or_create_session w u i q = Inr (s, w1)"
  shows "messages w1 = messages w" and "calls w1 = calls w"
  using assms
  by (auto simp: get_or_create_session_def create_session_def Let_def split: if_splits option.splits)

lemma save_message_fields [simp]:
  "sessions (snd (save_message w t s r c)) = sessions w"
  "calls (snd (save_message w t s r c)) = calls w"
  "messages (snd (save_message w t s r c)) =
     messages w @ [\<lparr>mid = fresh_id (map mid (messages w)), session_id = s, role = r, content = c, timestamp = t\<rparr>]"
  by (simp_all add: save_message_def Let_def)

lemma log_call_fields [simp]:
  "sessions (log_call c w) = sessions w"
  "messages (log_call c w) = messages w"
  "calls (log_call c w) = calls w @ [c]"
  by (simp_all add: log_call_def)

lemma get_or_create_session_new:
  "i = None \<or> i = Some 0 \<Longrightarrow>
   get_or_create_session w u i q =
     Inr (fresh_id (map sid (sessions w)),
          w\<lparr>sessions := sessions w @ [\<lparr>sid = fresh_id (map sid (sessions w)), user_id = uid u,
                                         title = session_title q\<rparr>]\<rparr>)"
  by (auto simp: get_or_create_session_def create_session_def Let_def)

lemma get_or_create_session_given:
  "i \<noteq> 0 \<Longrightarrow>
   get_or_create_session w u (Some i) q =
     (case owned_session w i u of
        None \<Rightarrow> Inl (HTTPException 404 (Text ''Session not found''))
      | Some session \<Rightarrow> Inr (i, w))"
  by (simp add: get_or_create_session_def Let_def)

lemma chat_try_not_resolved:
  assumes "strip (user req) \<noteq> []"
    and "get_or_create_session w u (session_id_req req) (strip (user req)) = Inl err"
  shows "chat_try e index pages w u req t1 t2 = (Inl err, w)"
  using assms by (simp add: chat_try_def)

lemma chat_try_search_fails:
  assumes "strip (user req) \<noteq> []"
    and "get_or_create_session w u (session_id_req req) (strip (user req)) = Inr (s, w1)"
    and "similarity_search e index pages (strip (user req)) (top_k req) = Inl err"
  shows "chat_try e index pages w u req t1 t2 =
     (Inl err, log_call (Search (strip (user req)) (top_k req))
                 (snd (save_message w1 t1 s ''user'' (strip (user req)))))"
  using assms by (simp add: chat_try_def Let_def case_prod_beta)

lemma chat_try_generate_fails:
  assumes "strip (user req) \<noteq> []"
    and "get_or_create_session w u (session_id_req req) (strip (user req)) = Inr (s, w1)"
    and "similarity_search e index pages (strip (user req)) (top_k req) = Inr results"
    and "w2 = snd (save_message w1 t1 s ''user'' (strip (user req)))"
    and "prompt = build_prompt (get_recent_context e w2 s 5)
                    (if results \<noteq> [] then format_context results else []) (strip (user req))"
    and "ollama_generate e prompt = Inl err"
  shows "chat_try e index pages w u req t1 t2 =
     (Inl err, log_call (Generate prompt) (log_call (Search (strip (user req)) (top_k req)) w2))"
  using assms by (simp add: chat_try_def Let_def case_prod_beta)

lemma chat_try_generates:
  assumes "strip (user req) \<noteq> []"
    and "get_or_create_session w u (session_id_req req) (strip (user req)) = Inr (s, w1)"
    and "similarity_search e index pages (strip (user req)) (top_k req) = Inr results"
    and "w2 = snd (save_message w1 t1 s ''user'' (strip (user req)))"
    and "prompt = build_prompt (get_recent_context e w2 s 5)
                    (if results \<noteq> [] then format_context results else []) (strip (user req))"
    and "ollama_generate e prompt = Inr response"
  shows "chat_try e index pages w u req t1 t2 =
     (Inr (if strip (if results \<noteq> [] then format_context results else []) = []
           then \<lparr>reply = fallback_sentence, sources_used = Some [], session_id_out = Some s\<rparr>
           else \<lparr>reply = strip (or_empty response), sources_used = Some results, session_id_out = Some s\<rparr>),
      snd (save_message (log_call (Generate prompt) (log_call (Search (strip (user req)) (top_k req)) w2))
             t2 s ''assistant'' (strip (or_empty response))))"
  using assms by (simp add: chat_try_def Let_def case_prod_beta)

lemma snd_chat: "snd (chat e index pages w u req t1 t2) = snd (chat_try e index pages w u req t1 t2)"
  by (simp add: chat_def split: prod.splits sum.splits)

lemma event_generator_fields [simp]:
  "sessions (snd (event_generator e w s prompt t)) = sessions w"
  "calls (snd (event_generator e w s prompt t)) = calls w @ [GenerateStream prompt]"
  by (simp_all add: event_generator_def Let_def case_prod_beta split: sum.splits)

lemma chat_stream_not_resolved:
  assumes "strip (user req) \<noteq> []"
    and "get_or_create_session w u (session_id_req req) (strip (user req)) = Inl err"
  shows "chat_stream e index pages w u req t1 t2 = (Inl err, w)"
  using assms by (simp add: chat_stream_def)

lemma chat_stream_search_fails:
  assumes "strip (user req) \<noteq> []"
    and "get_or_create_session w u (session_id_req req) (strip (user req)) = Inr (s, w1)"
    and "similarity_search e index pages (strip (user req)) (top_k req) = Inl err"
  shows "chat_stream e index pages w u req t1 t2 =
     (Inl err, log_call (Search (strip (user req)) (top_k req))
                 (snd (save_message w1 t1 s ''user'' (strip (user req)))))"
  using assms by (simp add: chat_stream_def Let_def case_prod_beta)

lemma chat_stream_streams:
  assumes "strip (user req) \<noteq> []"
    and "get_or_create_session w u (session_id_req req) (strip (user req)) = Inr (s, w1)"
    and "similarity_search e index pages (strip (user req)) (top_k req) = Inr results"
    and "w3 = log_call (Search (strip (user req)) (top_k req))
                (snd (save_message w1 t1 s ''user'' (strip (user req))))"
    and "prompt = build_prompt (get_recent_context e w3 s 5)
                    (if results \<noteq> [] then format_context results else []) (strip (user req))"
  shows "chat_stream e index pages w u req t1 t2 =
     (Inr (fst (event_generator e w3 s prompt t2)), snd (event_generator e w3 s prompt t2))"
  using assms by (simp add: chat_stream_def Let_def case_prod_beta)

lemma chat_try_sessions:
  assumes ne: "strip (user req) \<noteq> []"
    and res: "get_or_create_session w u (session_id_req req) (strip (user req)) = Inr (s, w1)"
  shows "sessions (snd (chat_try e index pages w u req t1 t2)) = sessions w1"
proof (cases "similarity_search e index pages (strip (user req)) (top_k req)")
  case (Inl err)
  show ?thesis by (simp add: chat_try_search_fails [OF ne res Inl])
next
  case (Inr results)
  show ?thesis
  proof (cases "ollama_generate e (build_prompt
        (get_recent_context e (snd (save_message w1 t1 s ''user'' (strip (user req)))) s 5)
        (if results \<noteq> [] then format_context results else []) (strip (user req)))")
    case (Inl err)
    show ?thesis by (simp add: chat_try_generate_fails [OF ne res Inr refl refl Inl])
  next
    case (Inr response)
    show ?thesis by (simp add: chat_try_generates [OF ne res \<open>similarity_search _ _ _ _ _ = Inr results\<close> refl refl Inr])
  qed
qed

lemma chat_stream_sessions:
  assumes ne: "strip (user req) \<noteq> []"
    and res: "get_or_create_session w u (session_id_req req) (strip (user req)) = Inr (s, w1)"
  shows "sessions (snd (chat_stream e index pages w u req t1 t2)) = sessions w1"
proof (cases "similarity_search e index pages (strip (user req)) (top_k req)")
  case (Inl err)
  show ?thesis by (simp add: chat_stream_search_fails [OF ne res Inl])
next
  case (Inr results)
  show ?thesis by (simp add: chat_stream_streams [OF ne res Inr refl refl])
qed


lemma chat_eq_Inr:
  "chat e index pages w u req t1 t2 = (Inr r, w') \<longleftrightarrow> chat_try e index pages w u req t1 t2 = (Inr r, w')"
  by (auto simp: chat_def split: prod.splits sum.splits)

lemma fst_chat_Inr:
  "fst (chat_try e index pages w u req t1 t2) = Inr r \<Longrightarrow> fst (chat e index pages w u req t1 t2) = Inr r"
  by (auto simp: chat_def split: prod.splits sum.splits)

lemma format_message_nonempty: "format_message m \<noteq> []"
  by (simp add: format_message_def)

lemma format_messages_for_llm_Nil_iff: "format_messages_for_llm msgs = [] \<longleftrightarrow> msgs = []"
proof -
  have "[] \<notin> set (map format_message msgs)"
    using format_message_nonempty by (metis (no_types) imageE list.set_map)
  then show ?thesis
    by (simp add: format_messages_for_llm_def join_eq_Nil_iff)
qed

lemma format_context_Nil_iff: "[] \<notin> set results \<Longrightarrow> format_context results = [] \<longleftrightarrow> results = []"
  by (simp add: format_context_def join_eq_Nil_iff)

lemma py_getitem_in_set: "py_getitem xs i = Inr x \<Longrightarrow> x \<in> set xs"
  by (auto simp: py_getitem_def split: if_splits)

lemma collect_subset:
  "collect pages labels acc = Inr results \<Longrightarrow> set results \<subseteq> set acc \<union> set pages"
proof (induction labels arbitrary: acc)
  case Nil
  then show ?case by auto
next
  case (Cons idx rest)
  show ?case
  proof (cases "idx < int (length pages)")
    case True
    with Cons.prems obtain p where p: "py_getitem pages idx = Inr p"
      and rec: "collect pages rest (acc @ [p]) = Inr results"
      by (auto split: sum.splits)
    from Cons.IH [OF rec] py_getitem_in_set [OF p] show ?thesis by auto
  next
    case False
    with Cons.prems have "collect pages rest acc = Inr results" by simp
    from Cons.IH [OF this] show ?thesis .
  qed
qed

lemma similarity_search_subset:
  "similarity_search e index pages query k = Inr results \<Longrightarrow> set results \<subseteq> set pages"
  using collect_subset [of pages _ "[]" results]
  by (auto simp: similarity_search_def Let_def split: sum.splits)

lemma build_prompt_layout:
  assumes "[] \<notin> set results"
  shows "build_prompt (format_messages_for_llm msgs)
           (if results \<noteq> [] then format_context results else []) q =
         prompt_layout msgs results q"
  using assms
  by (simp add: build_prompt_def prompt_layout_def system_instruction_def fallback_sentence_def
      recent_conversation_block_def document_context_block_def format_messages_for_llm_Nil_iff
      format_context_Nil_iff Let_def)
    (simp add: format_messages_for_llm_def format_context_def)

lemma recent_messages_log_call [simp]:
  "recent_messages e (log_call c w) s n = recent_messages e w s n"
  by (simp add: recent_messages_def)

lemma get_recent_context_log_call [simp]:
  "get_recent_context e (log_call c w) s n = get_recent_context e w s n"
  by (simp add: get_recent_context_def)

lemma chat_try_calls:
  assumes ne: "strip (user req) \<noteq> []"
    and res: "get_or_create_session w u (session_id_req req) (strip (user req)) = Inr (s, w1)"
    and search: "similarity_search e index pages (strip (user req)) (top_k req) = Inr results"
  shows "calls (snd (chat_try e index pages w u req t1 t2)) =
           calls w @ [Search (strip (user req)) (top_k req),
             Generate (build_prompt
               (get_recent_context e (snd (save_message w1 t1 s ''user'' (strip (user req)))) s 5)
               (if results \<noteq> [] then format_context results else []) (strip (user req)))]"
proof (cases "ollama_generate e (build_prompt
        (get_recent_context e (snd (save_message w1 t1 s ''user'' (strip (user req)))) s 5)
        (if results \<noteq> [] then format_context results else []) (strip (user req)))")
  case (Inl err)
  show ?thesis
    by (simp add: chat_try_generate_fails [OF ne res search refl refl Inl]
        get_or_create_session_keeps [OF res])
next
  case (Inr response)
  show ?thesis
    by (simp add: chat_try_generates [OF ne res search refl refl Inr]
        get_or_create_session_keeps [OF res])
qed

lemma chat_stream_calls:
  assumes ne: "strip (user req) \<noteq> []"
    and res: "get_or_create_session w u (session_id_req req) (strip (user req)) = Inr (s, w1)"
    and search: "similarity_search e index pages (strip (user req)) (top_k req) = Inr results"
  shows "calls (snd (chat_stream e index pages w u req t1 t2)) =
           calls w @ [Search (strip (user req)) (top_k req),
             GenerateStream (build_prompt
               (get_recent_context e (snd (save_message w1 t1 s ''user'' (strip (user req)))) s 5)
               (if results \<noteq> [] then format_context results else []) (strip (user req)))]"
  by (simp add: chat_stream_streams [OF ne res search refl refl]
      get_or_create_session_keeps [OF res])

lemma sql_order_by_desc_stable_sort: "sql_order_by_desc (\<lambda>ms. rev (sort_key timestamp ms))"
proof -
  have desc: "sorted_wrt (\<lambda>a b. timestamp b \<le> timestamp a) (rev (sort_key timestamp ms))" for ms
  proof -
    have "sorted (map timestamp (sort_key timestamp ms))"
      by (rule sorted_sort_key)
    then have "sorted_wrt (\<lambda>a b. timestamp a \<le> timestamp b) (sort_key timestamp ms)"
      by (simp add: sorted_wrt_map)
    then show ?thesis
      by (simp add: sorted_wrt_rev)
  qed
  show ?thesis
    unfolding sql_order_by_desc_def using desc by auto
qed

lemma newest_first:
  assumes order: "sql_order_by_desc f"
    and newer: "\<forall>m\<in>set ms. timestamp m < timestamp x"
  shows "\<exists>rest. f (ms @ [x]) = x # rest \<and> set rest = set ms
           \<and> sorted_wrt (\<lambda>a b. timestamp b \<le> timestamp a) rest"
proof -
  from order have perm: "mset (f (ms @ [x])) = mset (ms @ [x])"
    and desc: "sorted_wrt (\<lambda>a b. timestamp b \<le> timestamp a) (f (ms @ [x]))"
    by (simp_all add: sql_order_by_desc_def)
  from perm have "f (ms @ [x]) \<noteq> []"
    by (metis mset_zero_iff snoc_eq_iff_butlast)
  then obtain y rest where yr: "f (ms @ [x]) = y # rest"
    by (cases "f (ms @ [x])") auto
  from perm have sets: "set (f (ms @ [x])) = set (ms @ [x])"
    by (rule mset_eq_setD)
  have "y = x"
  proof (rule ccontr)
    assume neq: "y \<noteq> x"
    from sets yr have "y \<in> set ms" using neq by auto
    with newer have lt: "timestamp y < timestamp x" by blast
    from sets yr neq have "x \<in> set rest" by auto
    with desc yr have "timestamp x \<le> timestamp y" by auto
    with lt show False by simp
  qed
  with yr have head: "f (ms @ [x]) = x # rest" by simp
  from perm head have "mset rest = mset ms" by simp
  then have "set rest = set ms" by (rule mset_eq_setD)
  moreover from desc head have "sorted_wrt (\<lambda>a b. timestamp b \<le> timestamp a) rest" by simp
  ultimately show ?thesis using head by blast
qed

lemma recent_messages_after_save:
  assumes order: "sql_order_by_desc (order_by_timestamp_desc e)"
    and earlier: "\<forall>m\<in>set (messages w1). session_id m = s \<longrightarrow> timestamp m < t"
  shows "\<exists>older. recent_messages e (snd (save_message w1 t s r c)) s 5 =
             older @ [\<lparr>mid = fresh_id (map mid (messages w1)), session_id = s, role = r,
                        content = c, timestamp = t\<rparr>]
           \<and> set older \<subseteq> {m \<in> set (messages w1). session_id m = s}
           \<and> length older \<le> 4
           \<and> sorted_wrt (\<lambda>a b. timestamp a \<le> timestamp b) older"
proof -
  let ?x = "\<lparr>mid = fresh_id (map mid (messages w1)), session_id = s, role = r,
               content = c, timestamp = t\<rparr>"
  let ?ms = "filter (\<lambda>m. session_id m = s) (messages w1)"
  have newer: "\<forall>m\<in>set ?ms. timestamp m < timestamp ?x"
    using earlier by simp
  from newest_first [OF order newer] obtain rest
    where head: "order_by_timestamp_desc e (?ms @ [?x]) = ?x # rest"
      and sets: "set rest = set ?ms"
      and desc: "sorted_wrt (\<lambda>a b. timestamp b \<le> timestamp a) rest"
    by blast
  have "recent_messages e (snd (save_message w1 t s r c)) s 5 = rev (take 4 rest) @ [?x]"
    by (simp add: recent_messages_def head take_Cons')
  moreover have "set (rev (take 4 rest)) \<subseteq> {m \<in> set (messages w1). session_id m = s}"
    using sets set_take_subset [of 4 rest] by auto
  moreover have "length (rev (take 4 rest)) \<le> 4"
    by simp
  moreover have "sorted_wrt (\<lambda>a b. timestamp a \<le> timestamp b) (rev (take 4 rest))"
    using desc by (simp add: sorted_wrt_rev sorted_wrt_take)
  ultimately show ?thesis by blast
qed

lemma format_messages_for_llm_snoc_user:
  "format_messages_for_llm
     (older @ [\<lparr>mid = i, session_id = s, role = ''user'', content = q, timestamp = t\<rparr>]) =
   join ''\<newline>\<newline>''
     (map (\<lambda>m. (if role m = ''user'' then ''User'' else ''Assistant'') @ '': '' @ content m) older
      @ [''User: '' @ q])"
proof -
  have older: "map format_message older =
        map (\<lambda>m. (if role m = ''user'' then ''User'' else ''Assistant'') @ '': '' @ content m) older"
    by (rule map_cong) (simp_all add: format_message_def)
  have cur: "format_message \<lparr>mid = i, session_id = s, role = ''user'', content = q, timestamp = t\<rparr> =
        ''User: '' @ q"
    by (simp add: format_message_def)
  show ?thesis
    by (simp only: format_messages_for_llm_def map_append list.map older cur)
qed


lemma collect_ordinals:
  "\<forall>i\<in>set labels. 0 \<le> i \<Longrightarrow>
   collect pages labels acc =
     Inr (acc @ map (\<lambda>i. pages ! nat i) (filter (\<lambda>i. i < int (length pages)) labels))"
  by (induction labels arbitrary: acc) (simp_all add: py_getitem_def)

lemma similarity_search_ordinals:
  assumes "index_search e index (encode e query) k = Inr labels" and "\<forall>i\<in>set labels. 0 \<le> i"
  shows "similarity_search e index pages query k =
     Inr (map (\<lambda>i. pages ! nat i) (filter (\<lambda>i. i < int (length pages)) labels))"
  using assms by (simp add: similarity_search_def collect_ordinals)

lemma chat_reply_without_passages:
  assumes ne: "strip (user req) \<noteq> []"
    and search: "similarity_search e index pages (strip (user req)) (top_k req) = Inr []"
    and ok: "chat e index pages w current_user req t_user t_assistant = (Inr r, w')"
  shows "reply r = ''Sorry, I don't have that information.''"
proof -
  have tr: "chat_try e index pages w current_user req t_user t_assistant = (Inr r, w')"
    using ok by (simp add: chat_eq_Inr)
  show ?thesis
  proof (cases "get_or_create_session w current_user (session_id_req req) (strip (user req))")
    case (Inl err)
    then show ?thesis using tr by (simp add: chat_try_not_resolved [OF ne Inl])
  next
    case (Inr p)
    obtain s w1 where p: "p = (s, w1)" by (cases p)
    note res = Inr [unfolded p]
    show ?thesis
    proof (cases "ollama_generate e (build_prompt
        (get_recent_context e (snd (save_message w1 t_user s ''user'' (strip (user req)))) s 5)
        (if ([] :: string list) \<noteq> [] then format_context [] else []) (strip (user req)))")
      case (Inl err)
      then show ?thesis
        using tr by (simp add: chat_try_generate_fails [OF ne res search refl refl Inl])
    next
      case (Inr response)
      then show ?thesis
        using tr chat_try_generates [OF ne res search refl refl Inr, of t_assistant]
        by (auto simp: strip_def fallback_sentence_def)
    qed
  qed
qed

lemma sql_order_by_desc_insertion_order:
  "sql_order_by_desc (\<lambda>ms. sort_key (\<lambda>m. - int (timestamp m)) ms)"
proof -
  have desc: "sorted_wrt (\<lambda>a b. timestamp b \<le> timestamp a)
      (sort_key (\<lambda>m. - int (timestamp m)) ms)" for ms
  proof -
    have "sorted (map (\<lambda>m. - int (timestamp m)) (sort_key (\<lambda>m. - int (timestamp m)) ms))"
      by (rule sorted_sort_key)
    then show ?thesis
      by (simp add: sorted_wrt_map)
  qed
  show ?thesis
    unfolding sql_order_by_desc_def using desc by auto
qed

lemma build_prompt_text:
  "build_prompt recent_context context_text q =
     system_instruction
     @ (if recent_context = [] then []
        else ''RECENT CONVERSATION:\<newline>'' @ recent_context @ ''\<newline>\<newline>'')
     @ (if context_text = [] then []
        else ''DOCUMENT CONTEXT:\<newline>'' @ context_text @ ''\<newline>\<newline>'')
     @ ''Question: '' @ q @ ''\<newline>\<newline>'' @ ''Answer:''"
  by (simp add: build_prompt_def system_instruction_def fallback_sentence_def Let_def)

lemma join_snoc_nonempty: "y \<noteq> [] \<Longrightarrow> join sep (xs @ [y]) \<noteq> []"
proof (induction xs)
  case Nil
  then show ?case by simp
next
  case (Cons x xs)
  then show ?case by (cases xs) simp_all
qed

section \<open>Retrieval\<close>

text \<open>
  Claim C1. For an index built over a corpus of \<open>n\<close> passages and any \<open>k \<ge> 1\<close>,
  \<^verbatim>\<open>similarity_search\<close> returns at most \<open>min k n\<close> passage texts, and filters out every label
  that is not the ordinal of a passage.

  The code does not do this when \<open>k > n\<close>. FAISS always returns \<open>k\<close> labels and fills the
  places it has no neighbour for with \<open>-1\<close>; the guard \<^verbatim>\<open>idx < len(pages)\<close> lets \<open>-1\<close> through,
  and \<^verbatim>\<open>pages[-1]\<close> is the last passage. With two passages and \<open>k = 3\<close> the result has three
  entries, the last passage twice. (For a row of labels that are all ordinals, the result is
  as claimed: lemma \<open>similarity_search_ordinals\<close>.)
\<close>

theorem similarity_search_padding_label:
  "similarity_search (fixed_env [1, 0, -1] None []) (IndexFlatL2 [5, 6])
     [''Returns'', ''Shipping''] ''returns?'' 3
     = Inr [''Shipping'', ''Returns'', ''Shipping'']"
  by (simp add: similarity_search_def fixed_env_def py_getitem_def)




section \<open>Validation and sessions\<close>

text \<open>
  Claim C6. When the question is empty or consists of whitespace only, \<^verbatim>\<open>chat\<close> answers with
  the reply that asks for a question and \<^verbatim>\<open>chat_stream\<close> raises the error 400; in both, the
  world is returned as it was: no session is created, no message is stored, and neither the
  index nor the model is called.
\<close>

theorem empty_question_short_circuits:
  assumes "\<forall>c\<in>set (user req). isspace c"
  shows "chat e index pages w current_user req t_user t_assistant =
           (Inr \<lparr>reply = ''Please send a non-empty question.'', sources_used = None,
                  session_id_out = None\<rparr>, w)
       \<and> chat_stream e index pages w current_user req t_user t_assistant =
           (Inl (HTTPException 400 (Text ''Empty message'')), w)"
proof -
  from assms have "strip (user req) = []"
    by (simp add: strip_empty_iff)
  then show ?thesis
    by (simp add: chat_def chat_try_def chat_stream_def)
qed

theorem empty_question_short_circuits_witness:
  "strip (user \<lparr>user = ''  '', top_k = 3, session_id_req = None\<rparr>) = []
   \<and> chat (fixed_env [0] (Some ''Hello'') []) (IndexFlatL2 [1]) [''A''] bobs_world alice
        \<lparr>user = ''  '', top_k = 3, session_id_req = None\<rparr> 10 11 =
       (Inr \<lparr>reply = ''Please send a non-empty question.'', sources_used = None,
              session_id_out = None\<rparr>, bobs_world)
   \<and> chat_stream (fixed_env [0] (Some ''Hello'') []) (IndexFlatL2 [1]) [''A''] bobs_world alice
        \<lparr>user = ''  '', top_k = 3, session_id_req = None\<rparr> 10 11 =
       (Inl (HTTPException 400 (Text ''Empty message'')), bobs_world)"
proof -
  have blank: "\<forall>c\<in>set (user \<lparr>user = ''  '', top_k = 3, session_id_req = None\<rparr>). isspace c"
    by (simp add: isspace_def)
  show ?thesis
    using empty_question_short_circuits [OF blank, of "fixed_env [0] (Some ''Hello'') []"
        "IndexFlatL2 [1]" "[''A'']" bobs_world alice 10 11]
    by (simp add: strip_def isspace_def)
qed

text \<open>
  Claim C4. For a request that gives no session id and whose question \<open>q\<close> (the text the
  handler holds after stripping the surrounding whitespace, which it has checked to be
  non-empty) has more than 50 characters, the session that is created is titled with the
  first 50 characters of \<open>q\<close> followed by \<^verbatim>\<open>...\<close>; otherwise its title is \<open>q\<close>. This holds for
  \<^verbatim>\<open>chat\<close> and for \<^verbatim>\<open>chat_stream\<close>, whatever happens later in the request.
\<close>

theorem new_session_title:
  assumes "session_id_req req = None" and "strip (user req) \<noteq> []"
  shows "sessions (snd (chat e index pages w current_user req t_user t_assistant)) =
           sessions w @ [\<lparr>sid = fresh_id (map sid (sessions w)), user_id = uid current_user,
                           title = (if length (strip (user req)) > 50
                                    then take 50 (strip (user req)) @ ''...''
                                    else strip (user req))\<rparr>]
       \<and> sessions (snd (chat_stream e index pages w current_user req t_user t_assistant)) =
           sessions w @ [\<lparr>sid = fresh_id (map sid (sessions w)), user_id = uid current_user,
                           title = (if length (strip (user req)) > 50
                                    then take 50 (strip (user req)) @ ''...''
                                    else strip (user req))\<rparr>]"
proof -
  have new: "get_or_create_session w current_user (session_id_req req) (strip (user req)) =
     Inr (fresh_id (map sid (sessions w)),
          w\<lparr>sessions := sessions w @ [\<lparr>sid = fresh_id (map sid (sessions w)), user_id = uid current_user,
                                         title = session_title (strip (user req))\<rparr>]\<rparr>)"
    using assms(1) by (simp add: get_or_create_session_new)
  show ?thesis
    by (simp add: snd_chat chat_try_sessions [OF assms(2) new] chat_stream_sessions [OF assms(2) new]
        session_title_def)
qed

theorem new_session_title_witness:
  "session_id_req \<lparr>user = ''  How long do I have to return an item that arrived damaged? '', top_k = 1, session_id_req = None\<rparr> = None
   \<and> strip ''  How long do I have to return an item that arrived damaged? '' \<noteq> []
   \<and> sessions (snd (chat (fixed_env [0] None []) (IndexFlatL2 [1]) [''A''] empty_world alice
        \<lparr>user = ''  How long do I have to return an item that arrived damaged? '', top_k = 1, session_id_req = None\<rparr> 10 11)) =
       [\<lparr>sid = 1, user_id = 1, title = ''How long do I have to return an item that arrived ...''\<rparr>]"
  using new_session_title [of "\<lparr>user = ''  How long do I have to return an item that arrived damaged? '', top_k = 1, session_id_req = None\<rparr>"
      "fixed_env [0] None []" "IndexFlatL2 [1]" "[''A'']" empty_world alice 10 11]
  by (simp add: strip_def isspace_def empty_world_def alice_def fresh_id_def)

text \<open>
  Claim C5. A request that names a session of another user fails with a not-found error in
  both handlers and stores no message.

  \<^verbatim>\<open>chat_stream\<close> raises the 404. In \<^verbatim>\<open>chat\<close> the same \<^verbatim>\<open>raise HTTPException(404)\<close> sits inside the
  handler's own \<^verbatim>\<open>try\<close>, whose \<^verbatim>\<open>except Exception\<close> catches it and raises a 500 in its place.
  Nothing is stored in either.
\<close>

theorem chat_foreign_session_is_500:
  "chat (fixed_env [0] (Some ''Hello'') []) (IndexFlatL2 [1]) [''A''] bobs_world alice
      \<lparr>user = ''What is the refund policy?'', top_k = 3, session_id_req = Some 1\<rparr> 10 11 =
    (Inl (HTTPException 500 (ErrorTrace (HTTPException 404 (Text ''Session not found'')))), bobs_world)"
  by (simp add: chat_def chat_try_def get_or_create_session_def owned_session_def bobs_world_def
      alice_def strip_def isspace_def Let_def)

lemma foreign_session_not_found:
  assumes "strip (user req) \<noteq> []" and "session_id_req req = Some i" and "i \<noteq> 0"
    and "owned_session w i current_user = None"
  shows "chat e index pages w current_user req t_user t_assistant =
           (Inl (HTTPException 500 (ErrorTrace (HTTPException 404 (Text ''Session not found'')))), w)"
    and "chat_stream e index pages w current_user req t_user t_assistant =
           (Inl (HTTPException 404 (Text ''Session not found'')), w)"
  using assms
  by (simp_all add: chat_def chat_try_def chat_stream_def get_or_create_session_def Let_def)

section \<open>The fallback reply\<close>

text \<open>
  Claim C2. In \<^verbatim>\<open>chat\<close> and in \<^verbatim>\<open>chat_stream\<close>, when no passage is retrieved the reply the user
  sees is the fallback sentence, whatever the model generated.

  \<^verbatim>\<open>chat\<close> does this (lemma \<open>chat_reply_without_passages\<close>). \<^verbatim>\<open>chat_stream\<close> has no such
  override: it forwards each piece of the model's output as it comes. The input is the
  stale pair that \<^verbatim>\<open>build_or_load_index\<close> returns unchecked, an index of three vectors with
  two passages: for \<^verbatim>\<open>top_k = 1\<close> the search returns the label \<open>2\<close>, no passage has that
  ordinal, and \<^verbatim>\<open>similarity_search\<close> returns the empty list. The model streams \<^verbatim>\<open>Paris.\<close>, and
  that is what the client receives.
\<close>

theorem chat_stream_no_fallback:
  "similarity_search (fixed_env [2] None [Chunk (Some ''Paris.'')]) (IndexFlatL2 [7, 8, 9]) [''p0'', ''p1'']
      ''Capital of France?'' 1 = Inr []
   \<and> fst (chat_stream (fixed_env [2] None [Chunk (Some ''Paris.'')]) (IndexFlatL2 [7, 8, 9]) [''p0'', ''p1''] empty_world alice
      \<lparr>user = ''Capital of France?'', top_k = 1, session_id_req = None\<rparr> 10 11) =
    Inr [''data: Paris.\<newline>\<newline>'', ''event: done\<newline>data: 1\<newline>\<newline>'']"
  by (simp add: chat_stream_def event_generator_def get_or_create_session_def create_session_def
      save_message_def log_call_def similarity_search_def fixed_env_def empty_world_def alice_def
      strip_def isspace_def or_empty_def fresh_id_def str_int_def Let_def)

section \<open>The blocking handler\<close>

text \<open>
  Claim C10. In \<^verbatim>\<open>chat\<close>, when the search returns no passage the model is called all the
  same, with the prompt built without a document block. When the model answers, the user
  message and the stripped answer of the model are both stored, and the response carries
  the fallback reply, an empty \<^verbatim>\<open>sources_used\<close> and the id of the session.
\<close>

theorem chat_without_passages:
  assumes q: "q = strip (user req)" and ne: "q \<noteq> []"
    and res: "get_or_create_session w current_user (session_id_req req) q = Inr (s, w1)"
    and search: "similarity_search e index pages q (top_k req) = Inr []"
    and prompt: "prompt = build_prompt
        (get_recent_context e (snd (save_message w1 t_user s ''user'' q)) s 5) [] q"
    and gen: "ollama_generate e prompt = Inr response"
  shows "fst (chat e index pages w current_user req t_user t_assistant) =
           Inr \<lparr>reply = ''Sorry, I don't have that information.'', sources_used = Some [],
                 session_id_out = Some s\<rparr>
       \<and> calls (snd (chat e index pages w current_user req t_user t_assistant)) =
           calls w @ [Search q (top_k req), Generate prompt]
       \<and> messages (snd (chat e index pages w current_user req t_user t_assistant)) =
           messages w @
             [\<lparr>mid = fresh_id (map mid (messages w)), session_id = s, role = ''user'',
                content = q, timestamp = t_user\<rparr>,
              \<lparr>mid = fresh_id (map mid (messages w) @ [fresh_id (map mid (messages w))]),
                session_id = s, role = ''assistant'', content = strip (or_empty response),
                timestamp = t_assistant\<rparr>]"
proof -
  have keep: "messages w1 = messages w" "calls w1 = calls w"
    using get_or_create_session_keeps [OF res] by simp_all
  have step: "chat_try e index pages w current_user req t_user t_assistant =
     (Inr \<lparr>reply = fallback_sentence, sources_used = Some [], session_id_out = Some s\<rparr>,
      snd (save_message (log_call (Generate prompt) (log_call (Search q (top_k req))
             (snd (save_message w1 t_user s ''user'' q))))
             t_assistant s ''assistant'' (strip (or_empty response))))"
    using chat_try_generates [of req w current_user s w1 e index pages "[]"
        "snd (save_message w1 t_user s ''user'' q)" t_user prompt response t_assistant]
      ne res search prompt gen
    by (simp add: q strip_def)
  show ?thesis
    by (simp add: snd_chat fst_chat_Inr step keep fallback_sentence_def)
qed

theorem chat_without_passages_witness:
  "similarity_search (fixed_env [2] (Some '' Paris. '') []) (IndexFlatL2 [7, 8, 9]) [''p0'', ''p1'']
      ''Capital of France?'' 1 = Inr []
   \<and> fst (chat (fixed_env [2] (Some '' Paris. '') []) (IndexFlatL2 [7, 8, 9]) [''p0'', ''p1''] empty_world alice
        \<lparr>user = ''Capital of France?'', top_k = 1, session_id_req = None\<rparr> 10 11) =
       Inr \<lparr>reply = ''Sorry, I don't have that information.'', sources_used = Some [],
             session_id_out = Some 1\<rparr>
   \<and> map content (messages (snd (chat (fixed_env [2] (Some '' Paris. '') []) (IndexFlatL2 [7, 8, 9]) [''p0'', ''p1'']
        empty_world alice \<lparr>user = ''Capital of France?'', top_k = 1, session_id_req = None\<rparr> 10 11))) =
       [''Capital of France?'', ''Paris.'']"
  using chat_without_passages [where q = "''Capital of France?''"
      and req = "\<lparr>user = ''Capital of France?'', top_k = 1, session_id_req = None\<rparr>"
      and w = empty_world and current_user = alice and s = 1
      and ?w1.0 = "empty_world\<lparr>sessions := [\<lparr>sid = 1, user_id = 1, title = ''Capital of France?''\<rparr>]\<rparr>"
      and e = "fixed_env [2] (Some '' Paris. '') []" and index = "IndexFlatL2 [7, 8, 9]" and pages = "[''p0'', ''p1'']"
      and t_user = 10 and t_assistant = 11 and response = "Some '' Paris. ''"
      and prompt = "build_prompt (get_recent_context (fixed_env [2] (Some '' Paris. '') [])
          (snd (save_message (empty_world\<lparr>sessions := [\<lparr>sid = 1, user_id = 1, title = ''Capital of France?''\<rparr>]\<rparr>)
             10 1 ''user'' ''Capital of France?'')) 1 5) [] ''Capital of France?''"]
  by (simp add: strip_def isspace_def get_or_create_session_def create_session_def session_title_def
      fresh_id_def empty_world_def alice_def similarity_search_def fixed_env_def or_empty_def Let_def)


text \<open>
  Claim C7. When \<^verbatim>\<open>chat\<close> returns a response that carries a session id (a request that went
  through), the last message stored is the assistant's, its content is the stripped output
  of the model for the prompt that was sent, and the reply is that output or the fallback
  sentence: the override changes the reply only, after the message is stored. The two can
  differ, as the example after the theorem shows.
\<close>

theorem assistant_message_is_model_output:
  assumes ok: "chat e index pages w current_user req t_user t_assistant = (Inr r, w')"
    and sess: "session_id_out r = Some s"
  shows "\<exists>prompt response.
           last (calls w') = Generate prompt
         \<and> ollama_generate e prompt = Inr response
         \<and> session_id (last (messages w')) = s
         \<and> role (last (messages w')) = ''assistant''
         \<and> content (last (messages w')) = strip (or_empty response)
         \<and> timestamp (last (messages w')) = t_assistant
         \<and> (reply r = strip (or_empty response) \<or> reply r = ''Sorry, I don't have that information.'')"
proof -
  let ?q = "strip (user req)"
  have tr: "chat_try e index pages w current_user req t_user t_assistant = (Inr r, w')"
    using ok by (simp add: chat_eq_Inr)
  have ne: "?q \<noteq> []"
  proof
    assume "?q = []"
    then have "session_id_out r = None"
      using tr by (auto simp: chat_try_def)
    then show False using sess by simp
  qed
  obtain s' w1 where res: "get_or_create_session w current_user (session_id_req req) ?q = Inr (s', w1)"
  proof (cases "get_or_create_session w current_user (session_id_req req) ?q")
    case (Inl err)
    then show ?thesis using tr by (simp add: chat_try_not_resolved [OF ne Inl])
  next
    case (Inr p)
    then show ?thesis using that by (cases p) simp
  qed
  obtain results where search: "similarity_search e index pages ?q (top_k req) = Inr results"
  proof (cases "similarity_search e index pages ?q (top_k req)")
    case (Inl err)
    then show ?thesis using tr by (simp add: chat_try_search_fails [OF ne res Inl])
  next
    case (Inr results)
    then show ?thesis using that by simp
  qed
  let ?w2 = "snd (save_message w1 t_user s' ''user'' ?q)"
  let ?prompt = "build_prompt (get_recent_context e ?w2 s' 5)
                   (if results \<noteq> [] then format_context results else []) ?q"
  obtain response where gen: "ollama_generate e ?prompt = Inr response"
  proof (cases "ollama_generate e ?prompt")
    case (Inl err)
    then show ?thesis using tr by (simp add: chat_try_generate_fails [OF ne res search refl refl Inl])
  next
    case (Inr response)
    then show ?thesis using that by simp
  qed
  note step = chat_try_generates [OF ne res search refl refl gen, of t_assistant]
  from step tr have r: "r = (if strip (if results \<noteq> [] then format_context results else []) = []
           then \<lparr>reply = fallback_sentence, sources_used = Some [], session_id_out = Some s'\<rparr>
           else \<lparr>reply = strip (or_empty response), sources_used = Some results, session_id_out = Some s'\<rparr>)"
    and w': "w' = snd (save_message (log_call (Generate ?prompt) (log_call (Search ?q (top_k req)) ?w2))
             t_assistant s' ''assistant'' (strip (or_empty response)))"
    by simp_all
  from r sess have s: "s' = s" by (simp split: if_splits)
  have "last (calls w') = Generate ?prompt" by (simp add: w')
  moreover have "session_id (last (messages w')) = s" "role (last (messages w')) = ''assistant''"
    "content (last (messages w')) = strip (or_empty response)"
    "timestamp (last (messages w')) = t_assistant"
    by (simp_all add: w' s)
  moreover have "reply r = strip (or_empty response) \<or> reply r = ''Sorry, I don't have that information.''"
    by (simp add: r fallback_sentence_def)
  ultimately show ?thesis using gen by blast
qed


theorem assistant_message_is_model_output_witness:
  "(\<exists>prompt response.
       last (calls (snd (chat (fixed_env [2] (Some '' Paris. '') []) (IndexFlatL2 [7, 8, 9]) [''p0'', ''p1'']
          empty_world alice capital_request 10 11))) = Generate prompt
     \<and> ollama_generate (fixed_env [2] (Some '' Paris. '') []) prompt = Inr response
     \<and> content (last (messages (snd (chat (fixed_env [2] (Some '' Paris. '') []) (IndexFlatL2 [7, 8, 9]) [''p0'', ''p1'']
          empty_world alice capital_request 10 11)))) = strip (or_empty response))
   \<and> content (last (messages (snd (chat (fixed_env [2] (Some '' Paris. '') []) (IndexFlatL2 [7, 8, 9]) [''p0'', ''p1'']
          empty_world alice capital_request 10 11)))) = ''Paris.''
   \<and> fst (chat (fixed_env [2] (Some '' Paris. '') []) (IndexFlatL2 [7, 8, 9]) [''p0'', ''p1'']
          empty_world alice capital_request 10 11) =
       Inr \<lparr>reply = ''Sorry, I don't have that information.'', sources_used = Some [],
             session_id_out = Some 1\<rparr>"
proof -
  let ?c = "chat (fixed_env [2] (Some '' Paris. '') []) (IndexFlatL2 [7, 8, 9]) [''p0'', ''p1'']
          empty_world alice capital_request 10 11"
  let ?r = "\<lparr>reply = ''Sorry, I don't have that information.'', sources_used = Some [],
             session_id_out = Some (1::int)\<rparr>"
  have f: "fst ?c = Inr ?r"
    by (simp add: chat_def chat_try_def get_or_create_session_def create_session_def
        save_message_def log_call_def similarity_search_def fixed_env_def empty_world_def alice_def
        capital_request_def strip_def isspace_def or_empty_def fresh_id_def fallback_sentence_def
        Let_def)
  have m: "content (last (messages (snd ?c))) = ''Paris.''"
    by (simp add: chat_def chat_try_def get_or_create_session_def create_session_def
        save_message_def log_call_def similarity_search_def fixed_env_def empty_world_def alice_def
        capital_request_def strip_def isspace_def or_empty_def fresh_id_def fallback_sentence_def
        Let_def)
  have ok: "?c = (Inr ?r, snd ?c)"
    using f by (simp add: prod_eq_iff)
  have sess: "session_id_out ?r = Some 1"
    by simp
  from assistant_message_is_model_output [OF ok sess]
  have "\<exists>prompt response. last (calls (snd ?c)) = Generate prompt
     \<and> ollama_generate (fixed_env [2] (Some '' Paris. '') []) prompt = Inr response
     \<and> content (last (messages (snd ?c))) = strip (or_empty response)"
    by blast
  with m f show ?thesis by blast
qed

section \<open>The prompt\<close>

text \<open>
  Claim C8. For a question \<open>q\<close> that is not empty (after stripping), a session that resolves
  and a search that returns \<open>results\<close>, the prompt sent to the model, by \<^verbatim>\<open>chat\<close> and by
  \<^verbatim>\<open>chat_stream\<close>, is \<open>prompt_layout msgs results q\<close>: the system instruction with the exact
  fallback sentence and the directive to be concise, then the recent messages \<open>msgs\<close> under
  their heading (nothing when there are none), then the passages joined by
  \<^verbatim>\<open>\n\n---\n\n\<close> in the order of the search under their heading (nothing when there are
  none), then the question, then \<^verbatim>\<open>Answer:\<close>. The passages of the corpus are not empty, as
  the extractor leaves them.
\<close>

theorem prompt_is_fixed_order_concatenation:
  assumes pages: "[] \<notin> set pages"
    and q: "q = strip (user req)" and ne: "q \<noteq> []"
    and res: "get_or_create_session w current_user (session_id_req req) q = Inr (s, w1)"
    and search: "similarity_search e index pages q (top_k req) = Inr results"
    and msgs: "msgs = recent_messages e (snd (save_message w1 t_user s ''user'' q)) s 5"
  shows "calls (snd (chat e index pages w current_user req t_user t_assistant)) =
           calls w @ [Search q (top_k req), Generate (prompt_layout msgs results q)]
       \<and> calls (snd (chat_stream e index pages w current_user req t_user t_assistant)) =
           calls w @ [Search q (top_k req), GenerateStream (prompt_layout msgs results q)]"
proof -
  have "set results \<subseteq> set pages"
    using search by (rule similarity_search_subset)
  with pages have "[] \<notin> set results"
    by blast
  then have layout: "build_prompt (get_recent_context e (snd (save_message w1 t_user s ''user'' q)) s 5)
           (if results \<noteq> [] then format_context results else []) q = prompt_layout msgs results q"
    unfolding get_recent_context_def msgs by (rule build_prompt_layout)
  have ne': "strip (user req) \<noteq> []" using ne q by simp
  have res': "get_or_create_session w current_user (session_id_req req) (strip (user req)) = Inr (s, w1)"
    using res q by simp
  have search': "similarity_search e index pages (strip (user req)) (top_k req) = Inr results"
    using search q by simp
  show ?thesis
    using chat_try_calls [OF ne' res' search', of t_user t_assistant]
      chat_stream_calls [OF ne' res' search', of t_user t_assistant] layout
    by (simp add: snd_chat q)
qed

theorem prompt_is_fixed_order_concatenation_witness:
  \<open>calls (snd (chat (fixed_env [0] (Some ''Paris.'') []) (IndexFlatL2 [1]) [''Paris is the capital of France.'']
      empty_world alice capital_request 10 11)) =
     [Search ''Capital of France?'' 1,
      Generate (''You are an assistant that answers customer questions strictly using the provided company/document context and recent conversation history.\<newline>''
        @ ''If the answer cannot be found in the context, reply exactly: "Sorry, I don't have that information."\<newline>''
        @ ''Be concise and helpful.\<newline>\<newline>''
        @ ''RECENT CONVERSATION:\<newline>User: Capital of France?\<newline>\<newline>''
        @ ''DOCUMENT CONTEXT:\<newline>Paris is the capital of France.\<newline>\<newline>''
        @ ''Question: Capital of France?\<newline>\<newline>''
        @ ''Answer:'')]\<close>
  using prompt_is_fixed_order_concatenation [where pages = "[''Paris is the capital of France.'']"
      and q = "''Capital of France?''" and req = capital_request and w = empty_world
      and current_user = alice and s = 1
      and ?w1.0 = "empty_world\<lparr>sessions := [\<lparr>sid = 1, user_id = 1, title = ''Capital of France?''\<rparr>]\<rparr>"
      and e = "fixed_env [0] (Some ''Paris.'') []" and index = "IndexFlatL2 [1]"
      and results = "[''Paris is the capital of France.'']"
      and msgs = "[\<lparr>mid = 1, session_id = 1, role = ''user'', content = ''Capital of France?'', timestamp = 10\<rparr>]"
      and t_user = 10 and t_assistant = 11]
  by (simp add: strip_def isspace_def get_or_create_session_def create_session_def session_title_def
      fresh_id_def empty_world_def alice_def capital_request_def similarity_search_def fixed_env_def
      py_getitem_def recent_messages_def save_message_def prompt_layout_def system_instruction_def
      fallback_sentence_def recent_conversation_block_def document_context_block_def
      format_message_def Let_def)

text \<open>
  Claim C9. Both handlers store the user's message before they fetch the recent messages, so
  the recent-conversation block of the prompt always has the question itself as its newest
  entry, after the earlier messages in chronological order, each rendered with its role.

  The fetch orders by timestamp, not by insertion. When the last stored message carries the
  timestamp the new one gets, an \<^verbatim>\<open>ORDER BY timestamp DESC\<close> that leaves equal timestamps in
  insertion order puts the stored message first, and after \<^verbatim>\<open>messages.reverse()\<close> the block
  ends with \<^verbatim>\<open>Assistant: Hi!\<close>, not with the question.
\<close>

theorem question_not_newest_on_equal_timestamps:
  \<open>sql_order_by_desc (order_by_timestamp_desc tie_env)
   \<and> timestamp (last (messages tied_world)) = 10
   \<and> calls (snd (chat tie_env (IndexFlatL2 [7, 8, 9]) [''p0'', ''p1''] tied_world alice
        followup_request 10 11)) =
       [Search ''Capital of France?'' 1,
        Generate (''You are an assistant that answers customer questions strictly using the provided company/document context and recent conversation history.\<newline>''
          @ ''If the answer cannot be found in the context, reply exactly: "Sorry, I don't have that information."\<newline>''
          @ ''Be concise and helpful.\<newline>\<newline>''
          @ ''RECENT CONVERSATION:\<newline>User: Hello\<newline>\<newline>User: Capital of France?\<newline>\<newline>Assistant: Hi!\<newline>\<newline>''
          @ ''Question: Capital of France?\<newline>\<newline>''
          @ ''Answer:'')]
   \<and> calls (snd (chat_stream tie_env (IndexFlatL2 [7, 8, 9]) [''p0'', ''p1''] tied_world alice
        followup_request 10 11)) =
       [Search ''Capital of France?'' 1,
        GenerateStream (''You are an assistant that answers customer questions strictly using the provided company/document context and recent conversation history.\<newline>''
          @ ''If the answer cannot be found in the context, reply exactly: "Sorry, I don't have that information."\<newline>''
          @ ''Be concise and helpful.\<newline>\<newline>''
          @ ''RECENT CONVERSATION:\<newline>User: Hello\<newline>\<newline>User: Capital of France?\<newline>\<newline>Assistant: Hi!\<newline>\<newline>''
          @ ''Question: Capital of France?\<newline>\<newline>''
          @ ''Answer:'')]\<close>
proof -
  have order: "sql_order_by_desc (order_by_timestamp_desc tie_env)"
    by (simp add: tie_env_def fixed_env_def sql_order_by_desc_insertion_order)
  have stamp: "timestamp (last (messages tied_world)) = 10"
    by (simp add: tied_world_def)
  have blocking: \<open>calls (snd (chat tie_env (IndexFlatL2 [7, 8, 9]) [''p0'', ''p1''] tied_world alice
        followup_request 10 11)) =
       [Search ''Capital of France?'' 1,
        Generate (''You are an assistant that answers customer questions strictly using the provided company/document context and recent conversation history.\<newline>''
          @ ''If the answer cannot be found in the context, reply exactly: "Sorry, I don't have that information."\<newline>''
          @ ''Be concise and helpful.\<newline>\<newline>''
          @ ''RECENT CONVERSATION:\<newline>User: Hello\<newline>\<newline>User: Capital of France?\<newline>\<newline>Assistant: Hi!\<newline>\<newline>''
          @ ''Question: Capital of France?\<newline>\<newline>''
          @ ''Answer:'')]\<close>
    by (simp add: chat_def chat_try_def get_or_create_session_def owned_session_def
        followup_request_def tied_world_def alice_def similarity_search_def py_getitem_def
        tie_env_def fixed_env_def save_message_def log_call_def get_recent_context_def
        recent_messages_def format_messages_for_llm_def format_message_def build_prompt_def
        strip_def isspace_def or_empty_def fresh_id_def Let_def)
  have streaming: \<open>calls (snd (chat_stream tie_env (IndexFlatL2 [7, 8, 9]) [''p0'', ''p1''] tied_world alice
        followup_request 10 11)) =
       [Search ''Capital of France?'' 1,
        GenerateStream (''You are an assistant that answers customer questions strictly using the provided company/document context and recent conversation history.\<newline>''
          @ ''If the answer cannot be found in the context, reply exactly: "Sorry, I don't have that information."\<newline>''
          @ ''Be concise and helpful.\<newline>\<newline>''
          @ ''RECENT CONVERSATION:\<newline>User: Hello\<newline>\<newline>User: Capital of France?\<newline>\<newline>Assistant: Hi!\<newline>\<newline>''
          @ ''Question: Capital of France?\<newline>\<newline>''
          @ ''Answer:'')]\<close>
    by (simp add: chat_stream_def get_or_create_session_def owned_session_def
        followup_request_def tied_world_def alice_def similarity_search_def py_getitem_def
        tie_env_def fixed_env_def save_message_def log_call_def get_recent_context_def
        recent_messages_def format_messages_for_llm_def format_message_def build_prompt_def
        strip_def isspace_def fresh_id_def Let_def case_prod_beta)
  from order stamp blocking streaming show ?thesis
    by (intro conjI)
qed

text \<open>
  Claim C9, as the code has it. Both handlers store the user's message before they fetch the
  recent messages. When every message the session already holds is stamped strictly earlier
  than the new one, the prompt they send has a recent-conversation block, and the block
  ends with the question itself, rendered \<^verbatim>\<open>User: q\<close>. Before it come at most four earlier
  messages of the session, oldest first, each rendered with its role (\<^verbatim>\<open>User\<close> for \<^verbatim>\<open>user\<close>,
  \<^verbatim>\<open>Assistant\<close> for any other), all joined by blank lines. This holds for any ordering that
  returns the same rows, latest first.
\<close>

theorem current_question_is_newest_entry:
  assumes order: "sql_order_by_desc (order_by_timestamp_desc e)"
    and q: "q = strip (user req)" and ne: "q \<noteq> []"
    and res: "get_or_create_session w current_user (session_id_req req) q = Inr (s, w1)"
    and search: "similarity_search e index pages q (top_k req) = Inr results"
    and earlier: "\<forall>m\<in>set (messages w). session_id m = s \<longrightarrow> timestamp m < t_user"
    and ctx: "context_text = (if results \<noteq> [] then format_context results else [])"
  shows "\<exists>older.
           set older \<subseteq> {m \<in> set (messages w). session_id m = s}
         \<and> length older \<le> 4
         \<and> sorted_wrt (\<lambda>a b. timestamp a \<le> timestamp b) older
         \<and> calls (snd (chat e index pages w current_user req t_user t_assistant)) =
             calls w @ [Search q (top_k req),
               Generate (system_instruction
                 @ ''RECENT CONVERSATION:\<newline>''
                 @ join ''\<newline>\<newline>''
                     (map (\<lambda>m. (if role m = ''user'' then ''User'' else ''Assistant'') @ '': '' @ content m) older
                      @ [''User: '' @ q])
                 @ ''\<newline>\<newline>''
                 @ (if context_text = [] then []
                    else ''DOCUMENT CONTEXT:\<newline>'' @ context_text @ ''\<newline>\<newline>'')
                 @ ''Question: '' @ q @ ''\<newline>\<newline>'' @ ''Answer:'')]
         \<and> calls (snd (chat_stream e index pages w current_user req t_user t_assistant)) =
             calls w @ [Search q (top_k req),
               GenerateStream (system_instruction
                 @ ''RECENT CONVERSATION:\<newline>''
                 @ join ''\<newline>\<newline>''
                     (map (\<lambda>m. (if role m = ''user'' then ''User'' else ''Assistant'') @ '': '' @ content m) older
                      @ [''User: '' @ q])
                 @ ''\<newline>\<newline>''
                 @ (if context_text = [] then []
                    else ''DOCUMENT CONTEXT:\<newline>'' @ context_text @ ''\<newline>\<newline>'')
                 @ ''Question: '' @ q @ ''\<newline>\<newline>'' @ ''Answer:'')]"
proof -
  have keep: "messages w1 = messages w"
    using get_or_create_session_keeps [OF res] by simp
  have earlier1: "\<forall>m\<in>set (messages w1). session_id m = s \<longrightarrow> timestamp m < t_user"
    using earlier keep by simp
  from recent_messages_after_save [OF order earlier1, of "''user''" q] obtain older
    where recent: "recent_messages e (snd (save_message w1 t_user s ''user'' q)) s 5 =
             older @ [\<lparr>mid = fresh_id (map mid (messages w1)), session_id = s, role = ''user'',
                        content = q, timestamp = t_user\<rparr>]"
      and sub: "set older \<subseteq> {m \<in> set (messages w1). session_id m = s}"
      and len: "length older \<le> 4"
      and asc: "sorted_wrt (\<lambda>a b. timestamp a \<le> timestamp b) older"
    by blast
  let ?block = "join ''\<newline>\<newline>''
        (map (\<lambda>m. (if role m = ''user'' then ''User'' else ''Assistant'') @ '': '' @ content m) older
         @ [''User: '' @ q])"
  have rc: "get_recent_context e (snd (save_message w1 t_user s ''user'' q)) s 5 = ?block"
    by (simp only: get_recent_context_def recent format_messages_for_llm_snoc_user)
  have block: "?block \<noteq> []"
    by (rule join_snoc_nonempty) simp
  have prompt: "build_prompt ?block context_text q =
      system_instruction @ ''RECENT CONVERSATION:\<newline>'' @ ?block @ ''\<newline>\<newline>''
      @ (if context_text = [] then []
         else ''DOCUMENT CONTEXT:\<newline>'' @ context_text @ ''\<newline>\<newline>'')
      @ ''Question: '' @ q @ ''\<newline>\<newline>'' @ ''Answer:''"
    using block by (simp add: build_prompt_text)
  have ne': "strip (user req) \<noteq> []" using ne q by simp
  have res': "get_or_create_session w current_user (session_id_req req) (strip (user req)) = Inr (s, w1)"
    using res q by simp
  have search': "similarity_search e index pages (strip (user req)) (top_k req) = Inr results"
    using search q by simp
  have blocking: "calls (snd (chat e index pages w current_user req t_user t_assistant)) =
      calls w @ [Search q (top_k req), Generate (build_prompt ?block context_text q)]"
    using chat_try_calls [OF ne' res' search', of t_user t_assistant] rc
    by (simp add: snd_chat q ctx)
  have streaming: "calls (snd (chat_stream e index pages w current_user req t_user t_assistant)) =
      calls w @ [Search q (top_k req), GenerateStream (build_prompt ?block context_text q)]"
    using chat_stream_calls [OF ne' res' search', of t_user t_assistant] rc
    by (simp add: q ctx)
  show ?thesis
    using sub len asc blocking streaming unfolding prompt keep by blast
qed

theorem current_question_is_newest_entry_witness:
  \<open>map timestamp (messages alices_world) = [1, 2]
   \<and> similarity_search (fixed_env [2] (Some ''Paris.'') []) (IndexFlatL2 [7, 8, 9]) [''p0'', ''p1'']
        ''Capital of France?'' 1 = Inr []
   \<and> (\<exists>older.
       set older \<subseteq> {m \<in> set (messages alices_world). session_id m = 1}
     \<and> length older \<le> 4
     \<and> sorted_wrt (\<lambda>a b. timestamp a \<le> timestamp b) older
     \<and> calls (snd (chat (fixed_env [2] (Some ''Paris.'') []) (IndexFlatL2 [7, 8, 9]) [''p0'', ''p1'']
           alices_world alice followup_request 10 11)) =
         calls alices_world @ [Search ''Capital of France?'' 1,
           Generate (system_instruction
             @ ''RECENT CONVERSATION:\<newline>''
             @ join ''\<newline>\<newline>''
                 (map (\<lambda>m. (if role m = ''user'' then ''User'' else ''Assistant'') @ '': '' @ content m) older
                  @ [''User: '' @ ''Capital of France?''])
             @ ''\<newline>\<newline>''
             @ ''Question: '' @ ''Capital of France?'' @ ''\<newline>\<newline>'' @ ''Answer:'')]
     \<and> calls (snd (chat_stream (fixed_env [2] (Some ''Paris.'') []) (IndexFlatL2 [7, 8, 9]) [''p0'', ''p1'']
           alices_world alice followup_request 10 11)) =
         calls alices_world @ [Search ''Capital of France?'' 1,
           GenerateStream (system_instruction
             @ ''RECENT CONVERSATION:\<newline>''
             @ join ''\<newline>\<newline>''
                 (map (\<lambda>m. (if role m = ''user'' then ''User'' else ''Assistant'') @ '': '' @ content m) older
                  @ [''User: '' @ ''Capital of France?''])
             @ ''\<newline>\<newline>''
             @ ''Question: '' @ ''Capital of France?'' @ ''\<newline>\<newline>'' @ ''Answer:'')])
   \<and> calls (snd (chat (fixed_env [2] (Some ''Paris.'') []) (IndexFlatL2 [7, 8, 9]) [''p0'', ''p1'']
        alices_world alice followup_request 10 11)) =
       [Search ''Capital of France?'' 1,
        Generate (''You are an assistant that answers customer questions strictly using the provided company/document context and recent conversation history.\<newline>''
          @ ''If the answer cannot be found in the context, reply exactly: "Sorry, I don't have that information."\<newline>''
          @ ''Be concise and helpful.\<newline>\<newline>''
          @ ''RECENT CONVERSATION:\<newline>User: Hello\<newline>\<newline>Assistant: Hi!\<newline>\<newline>User: Capital of France?\<newline>\<newline>''
          @ ''Question: Capital of France?\<newline>\<newline>''
          @ ''Answer:'')]\<close>
proof -
  let ?e = "fixed_env [2] (Some ''Paris.'') [] :: nat env"
  have order: "sql_order_by_desc (order_by_timestamp_desc ?e)"
    by (simp add: fixed_env_def sql_order_by_desc_stable_sort)
  have q: "''Capital of France?'' = strip (user followup_request)"
    by (simp add: followup_request_def strip_def isspace_def)
  have ne: "''Capital of France?'' \<noteq> []"
    by simp
  have res: "get_or_create_session alices_world alice (session_id_req followup_request)
      ''Capital of France?'' = Inr (1, alices_world)"
    by (simp add: get_or_create_session_def owned_session_def followup_request_def alices_world_def
        alice_def Let_def)
  have top: "top_k followup_request = 1"
    by (simp add: followup_request_def)
  have found: "similarity_search ?e (IndexFlatL2 [7, 8, 9]) [''p0'', ''p1''] ''Capital of France?'' 1 = Inr []"
    by (simp add: similarity_search_def fixed_env_def)
  have search: "similarity_search ?e (IndexFlatL2 [7, 8, 9]) [''p0'', ''p1''] ''Capital of France?''
      (top_k followup_request) = Inr []"
    using found top by simp
  have stamps: "map timestamp (messages alices_world) = [1, 2]"
    by (simp add: alices_world_def)
  have earlier: "\<forall>m\<in>set (messages alices_world). session_id m = 1 \<longrightarrow> timestamp m < 10"
    by (simp add: alices_world_def)
  have ctx: "[] = (if ([] :: string list) \<noteq> [] then format_context [] else [])"
    by simp
  from current_question_is_newest_entry [OF order q ne res search earlier ctx, of 11]
  have general: \<open>(\<exists>older.
       set older \<subseteq> {m \<in> set (messages alices_world). session_id m = 1}
     \<and> length older \<le> 4
     \<and> sorted_wrt (\<lambda>a b. timestamp a \<le> timestamp b) older
     \<and> calls (snd (chat (fixed_env [2] (Some ''Paris.'') []) (IndexFlatL2 [7, 8, 9]) [''p0'', ''p1'']
           alices_world alice followup_request 10 11)) =
         calls alices_world @ [Search ''Capital of France?'' 1,
           Generate (system_instruction
             @ ''RECENT CONVERSATION:\<newline>''
             @ join ''\<newline>\<newline>''
                 (map (\<lambda>m. (if role m = ''user'' then ''User'' else ''Assistant'') @ '': '' @ content m) older
                  @ [''User: '' @ ''Capital of France?''])
             @ ''\<newline>\<newline>''
             @ ''Question: '' @ ''Capital of France?'' @ ''\<newline>\<newline>'' @ ''Answer:'')]
     \<and> calls (snd (chat_stream (fixed_env [2] (Some ''Paris.'') []) (IndexFlatL2 [7, 8, 9]) [''p0'', ''p1'']
           alices_world alice followup_request 10 11)) =
         calls alices_world @ [Search ''Capital of France?'' 1,
           GenerateStream (system_instruction
             @ ''RECENT CONVERSATION:\<newline>''
             @ join ''\<newline>\<newline>''
                 (map (\<lambda>m. (if role m = ''user'' then ''User'' else ''Assistant'') @ '': '' @ content m) older
                  @ [''User: '' @ ''Capital of France?''])
             @ ''\<newline>\<newline>''
             @ ''Question: '' @ ''Capital of France?'' @ ''\<newline>\<newline>'' @ ''Answer:'')])\<close>
    by (simp add: top)
  have literal: \<open>calls (snd (chat (fixed_env [2] (Some ''Paris.'') []) (IndexFlatL2 [7, 8, 9]) [''p0'', ''p1'']
        alices_world alice followup_request 10 11)) =
       [Search ''Capital of France?'' 1,
        Generate (''You are an assistant that answers customer questions strictly using the provided company/document context and recent conversation history.\<newline>''
          @ ''If the answer cannot be found in the context, reply exactly: "Sorry, I don't have that information."\<newline>''
          @ ''Be concise and helpful.\<newline>\<newline>''
          @ ''RECENT CONVERSATION:\<newline>User: Hello\<newline>\<newline>Assistant: Hi!\<newline>\<newline>User: Capital of France?\<newline>\<newline>''
          @ ''Question: Capital of France?\<newline>\<newline>''
          @ ''Answer:'')]\<close>
    by (simp add: chat_def chat_try_def get_or_create_session_def owned_session_def
        followup_request_def alices_world_def alice_def similarity_search_def py_getitem_def
        fixed_env_def save_message_def log_call_def get_recent_context_def
        recent_messages_def format_messages_for_llm_def format_message_def build_prompt_def
        strip_def isspace_def or_empty_def fresh_id_def Let_def)
  from stamps found general literal show ?thesis
    by (intro conjI)
qed

end
